theory Spec2Isabelle
  imports Main "HOL-Library.Word" "HOL-Library.Sublist"
begin

section \<open>The keyword table (keywords.h)\<close>

text \<open>
  The token kinds are the \<^verbatim>\<open>TT_*\<close> names that annotate the entries of the keyword
  table, in the order of the table: entry number \<open>k\<close> of the table is the spelling of the
  \<open>k\<close>-th token kind.  Literal and structural kinds have the empty spelling.
\<close>

datatype TokenType =
    TT_INTEGER | TT_FLOAT | TT_STRING | TT_IDENTIFIER | TT_BOOLEAN
  | TT_IT | TT_ITZLIEKA | TT_NOOB | TT_NUMBR | TT_NUMBAR | TT_TROOF | TT_YARN | TT_BUKKIT
  | TT_EOF | TT_NEWLINE | TT_HAI | TT_KTHXBYE | TT_HASA | TT_ITZA | TT_ITZ | TT_RNOOB | TT_R
  | TT_ANYR | TT_AN | TT_SUMOF | TT_DIFFOF | TT_PRODUKTOF | TT_QUOSHUNTOF | TT_MODOF
  | TT_BIGGROF | TT_SMALLROF | TT_BOTHOF | TT_EITHEROF | TT_WONOF | TT_NOT | TT_MKAY
  | TT_ALLOF | TT_ANYOF | TT_BOTHSAEM | TT_DIFFRINT | TT_MAEK | TT_A | TT_ISNOWA
  | TT_VISIBLE | TT_SMOOSH | TT_BANG | TT_GIMMEH | TT_ORLY | TT_YARLY | TT_MEBBE
  | TT_NOWAI | TT_OIC | TT_WTF | TT_OMG | TT_OMGWTF | TT_GTFO | TT_IMINYR | TT_UPPIN
  | TT_NERFIN | TT_YR | TT_TIL | TT_WILE | TT_IMOUTTAYR | TT_HOWIZ | TT_IZ | TT_IFUSAYSO
  | TT_FOUNDYR | TT_SRS | TT_APOSTROPHEZ | TT_OHAIIM | TT_IMLIEK | TT_KTHX | TT_ENDOFTOKENS

definition "keywords" :: "string list" where
  "keywords =
    ['''', '''', '''', '''', '''',
     ''IT'', ''ITZ LIEK A'', ''NOOB'', ''NUMBR'', ''NUMBAR'', ''TROOF'', ''YARN'', ''BUKKIT'',
     '''', '''',
     ''HAI'', ''KTHXBYE'', ''HAS A'', ''ITZ A'', ''ITZ'', ''R NOOB'', ''R'', ''AN YR'', ''AN'',
     ''SUM OF'', ''DIFF OF'', ''PRODUKT OF'', ''QUOSHUNT OF'', ''MOD OF'', ''BIGGR OF'',
     ''SMALLR OF'', ''BOTH OF'', ''EITHER OF'', ''WON OF'', ''NOT'', ''MKAY'', ''ALL OF'',
     ''ANY OF'', ''BOTH SAEM'', ''DIFFRINT'', ''MAEK'', ''A'', ''IS NOW A'', ''VISIBLE'',
     ''SMOOSH'', ''!'', ''GIMMEH'', ''O RLY?'', ''YA RLY'', ''MEBBE'', ''NO WAI'', ''OIC'',
     ''WTF?'', ''OMG'', ''OMGWTF'', ''GTFO'', ''IM IN YR'', ''UPPIN'', ''NERFIN'', ''YR'',
     ''TIL'', ''WILE'', ''IM OUTTA YR'', ''HOW IZ'', ''IZ'', ''IF U SAY SO'', ''FOUND YR'',
     ''SRS'', [CHR 0x27, CHR ''Z''], ''O HAI IM'', ''IM LIEK'', ''KTHX'', '''']"

text \<open>
  The ordering the specification ascribes to the table: whenever one entry is a proper
  prefix of another, the longer one stands at the earlier index.
\<close>

definition longest_first :: "string list \<Rightarrow> bool" where
  "longest_first ks =
     (\<forall>i < length ks. \<forall>j < length ks. strict_prefix (ks ! i) (ks ! j) \<longrightarrow> j < i)"

text \<open>
  All pairs of a table's non-empty entries in which the first is a proper prefix of the
  second, each entry with its index.
\<close>

definition prefix_pairs :: "string list \<Rightarrow> ((nat \<times> string) \<times> (nat \<times> string)) list" where
  "prefix_pairs ks =
     [((i, a), (j, b)). (i, a) \<leftarrow> enumerate 0 ks, a \<noteq> [], (j, b) \<leftarrow> enumerate 0 ks,
                        strict_prefix a b]"

text \<open>
  First-match lookup over a table, as the specification words it: the index of the first
  non-empty entry that is a prefix of the input.
\<close>

fun first_match :: "string list \<Rightarrow> string \<Rightarrow> nat option" where
  "first_match [] s = None"
| "first_match (k # ks) s =
     (if k \<noteq> [] \<and> prefix k s then Some 0 else map_option Suc (first_match ks s))"

text \<open>
  The words of a spelling (its parts between blanks), and the same three notions on whole
  words: the ordering, the pairs of non-empty entries in which the words of the first are
  a proper prefix of the words of the second, and first-match lookup of a sequence of
  input words.

  Modelled from the spec: the tokenizer is not among the sources.  Section 4.4: multi-word
  keywords overlap in their prefixes (\<open>R\<close> and \<open>R NOOB\<close>; \<open>ITZ\<close>, \<open>ITZ A\<close> and
  \<open>ITZ LIEK A\<close>), the tokenizer emits the longest matching compound token and relies on
  the order of the table for it; section 6: whitespace has been stripped from its input.
\<close>

fun split_words :: "string \<Rightarrow> string \<Rightarrow> string list" where
  "split_words [] w = (if w = [] then [] else [w])"
| "split_words (c # cs) w =
     (if c = CHR '' '' then (if w = [] then split_words cs [] else w # split_words cs [])
      else split_words cs (w @ [c]))"

definition words_of :: "string \<Rightarrow> string list" where
  "words_of s = split_words s []"

definition word_longest_first :: "string list \<Rightarrow> bool" where
  "word_longest_first ks =
     (\<forall>i < length ks. \<forall>j < length ks.
        ks ! i \<noteq> [] \<and> strict_prefix (words_of (ks ! i)) (words_of (ks ! j)) \<longrightarrow> j < i)"

definition word_prefix_pairs :: "string list \<Rightarrow> ((nat \<times> string) \<times> (nat \<times> string)) list" where
  "word_prefix_pairs ks =
     [((i, a), (j, b)). (i, a) \<leftarrow> enumerate 0 ks, a \<noteq> [], (j, b) \<leftarrow> enumerate 0 ks,
                        strict_prefix (words_of a) (words_of b)]"

fun first_word_match :: "string list \<Rightarrow> string list \<Rightarrow> nat option" where
  "first_word_match [] ws = None"
| "first_word_match (k # ks) ws =
     (if k \<noteq> [] \<and> prefix (words_of k) ws then Some 0
      else map_option Suc (first_word_match ks ws))"

section \<open>The parse tree (parser.h)\<close>

subsection \<open>Enumerations\<close>

datatype ConstantType = CT_INTEGER | CT_FLOAT | CT_BOOLEAN | CT_STRING | CT_NIL | CT_ARRAY

datatype OpType =
    OP_ADD | OP_SUB | OP_MULT | OP_DIV | OP_MOD | OP_MAX | OP_MIN
  | OP_AND | OP_OR | OP_XOR | OP_NOT
  | OP_EQ | OP_NEQ
  | OP_CAT

datatype ExprType = ET_CAST | ET_CONSTANT | ET_IDENTIFIER | ET_FUNCCALL | ET_OP | ET_IMPVAR

text \<open>
  The operator variants as the specification lists them, for comparison with \<open>OpType\<close>.
\<close>

datatype SpecOpVariant =
    Spec_add | Spec_sub | Spec_mult | Spec_div | Spec_mod | Spec_max | Spec_min
  | Spec_and | Spec_or | Spec_xor | Spec_not | Spec_eq | Spec_neq
  | Spec_all_of | Spec_any_of | Spec_concat

definition spec_op_variants :: "SpecOpVariant list" where
  "spec_op_variants =
     [Spec_add, Spec_sub, Spec_mult, Spec_div, Spec_mod, Spec_max, Spec_min,
      Spec_and, Spec_or, Spec_xor, Spec_not, Spec_eq, Spec_neq,
      Spec_all_of, Spec_any_of, Spec_concat]"

definition op_types :: "OpType list" where
  "op_types =
     [OP_ADD, OP_SUB, OP_MULT, OP_DIV, OP_MOD, OP_MAX, OP_MIN,
      OP_AND, OP_OR, OP_XOR, OP_NOT, OP_EQ, OP_NEQ, OP_CAT]"

definition expr_types :: "ExprType list" where
  "expr_types = [ET_CAST, ET_CONSTANT, ET_IDENTIFIER, ET_FUNCCALL, ET_OP, ET_IMPVAR]"

datatype StmtType =
    ST_CAST | ST_PRINT | ST_INPUT | ST_ASSIGNMENT | ST_DECLARATION | ST_IFTHENELSE
  | ST_SWITCH | ST_BREAK | ST_RETURN | ST_LOOP | ST_DEALLOCATION | ST_FUNCDEF | ST_EXPR
  | ST_ALTARRAYDEF


subsection \<open>Tokens\<close>

text \<open>
  Modelled from the spec: the \<open>Token\<close> structure is declared in tokenizer.h, which is not
  among the sources.  Section 4.1: each token carries a kind, an optional literal payload
  (string, integer, or float), the source file name, and the source line number.
\<close>

datatype TokenData = TD_none | TD_string string | TD_integer "64 word" | TD_float "32 word"

record Token =
  tok_type :: TokenType
  tok_data :: TokenData
  tok_fname :: string
  tok_line :: nat

subsection \<open>Nodes\<close>

text \<open>
  \<open>ConstantData\<close> is a union of \<^verbatim>\<open>long long int i\<close>, \<^verbatim>\<open>float f\<close> and \<^verbatim>\<open>char *s\<close>; the
  member in use is the constructor.  A float is kept as its bit pattern.  The structures
  \<open>ConstantNode\<close>, \<open>TypeNode\<close> and \<open>MainNode\<close> are records; their fields \<open>type\<close>, \<open>data\<close>
  and \<open>block\<close> carry the prefix of their structure.
\<close>

datatype ConstantData =
    ConstantData_i "64 word" | ConstantData_f "32 word" | ConstantData_s string

record ConstantNode =
  cn_type :: ConstantType
  cn_data :: ConstantData

record TypeNode =
  tn_type :: ConstantType

text \<open>
  The statement, expression and identifier nodes pair a discriminant with an untyped
  payload; here each value of the discriminant is a constructor that carries the fields
  of the payload structure (\<open>CastExprNode\<close>, \<open>FuncCallExprNode\<close>, \<open>OpExprNode\<close>,
  \<open>CastStmtNode\<close>, ..., \<open>AltArrayDefStmtNode\<close>) in their declared order.  A pointer the
  header documents as optional is an \<open>option\<close>, a node list is a list.
\<close>

datatype IdentifierNode =
    IdentifierNode (id_payload: IdentifierData) (id_fname: string) (id_line: nat)
      (id_slot: "IdentifierNode option")
and IdentifierData =
    Id_DIRECT string
  | Id_INDIRECT ExprNode
and ExprNode =
    Expr_CAST ExprNode TypeNode
  | Expr_CONSTANT ConstantNode
  | Expr_IDENTIFIER IdentifierNode
  | Expr_FUNCCALL IdentifierNode IdentifierNode "ExprNode list"
  | Expr_OP OpType "ExprNode list"
  | Expr_IMPVAR

datatype StmtNode =
    Stmt_CAST IdentifierNode TypeNode
  | Stmt_PRINT "ExprNode list" bool
  | Stmt_INPUT IdentifierNode
  | Stmt_ASSIGNMENT IdentifierNode ExprNode
  | Stmt_DECLARATION IdentifierNode IdentifierNode "ExprNode option" "TypeNode option"
      "IdentifierNode option"
  | Stmt_IFTHENELSE BlockNode "BlockNode option" "ExprNode list" "BlockNode list"
  | Stmt_SWITCH "ExprNode list" "BlockNode list" "BlockNode option"
  | Stmt_BREAK
  | Stmt_RETURN ExprNode
  | Stmt_LOOP IdentifierNode "IdentifierNode option" "ExprNode option" "ExprNode option"
      BlockNode
  | Stmt_DEALLOCATION IdentifierNode
  | Stmt_FUNCDEF IdentifierNode IdentifierNode "IdentifierNode list" BlockNode
  | Stmt_EXPR ExprNode
  | Stmt_ALTARRAYDEF IdentifierNode BlockNode "IdentifierNode option"
and BlockNode =
    BlockNode "StmtNode list"


fun expr_type :: "ExprNode \<Rightarrow> ExprType" where
  "expr_type (Expr_CAST e t) = ET_CAST"
| "expr_type (Expr_CONSTANT c) = ET_CONSTANT"
| "expr_type (Expr_IDENTIFIER i) = ET_IDENTIFIER"
| "expr_type (Expr_FUNCCALL s n as) = ET_FUNCCALL"
| "expr_type (Expr_OP op as) = ET_OP"
| "expr_type Expr_IMPVAR = ET_IMPVAR"

fun stmt_type :: "StmtNode \<Rightarrow> StmtType" where
  "stmt_type (Stmt_CAST i t) = ST_CAST"
| "stmt_type (Stmt_PRINT as nonl) = ST_PRINT"
| "stmt_type (Stmt_INPUT i) = ST_INPUT"
| "stmt_type (Stmt_ASSIGNMENT i e) = ST_ASSIGNMENT"
| "stmt_type (Stmt_DECLARATION s t e ty p) = ST_DECLARATION"
| "stmt_type (Stmt_IFTHENELSE y n gs bs) = ST_IFTHENELSE"
| "stmt_type (Stmt_SWITCH gs bs d) = ST_SWITCH"
| "stmt_type Stmt_BREAK = ST_BREAK"
| "stmt_type (Stmt_RETURN e) = ST_RETURN"
| "stmt_type (Stmt_LOOP n v g u b) = ST_LOOP"
| "stmt_type (Stmt_DEALLOCATION i) = ST_DEALLOCATION"
| "stmt_type (Stmt_FUNCDEF s n as b) = ST_FUNCDEF"
| "stmt_type (Stmt_EXPR e) = ST_EXPR"
| "stmt_type (Stmt_ALTARRAYDEF n b p) = ST_ALTARRAYDEF"


subsection \<open>Node constructors\<close>

text \<open>
  Modelled from the spec: the header declares \<open>createTypeNode\<close> and the four constant
  constructors, their bodies are in parser.c, which is not among the sources.  Section 3:
  a constant has a kind and a payload whose variant matches the kind (64-bit signed
  integer, 32-bit float, owned string); section 4.2: the type tag parser records the tag.
  \<open>createBooleanConstantNode\<close> takes an \<^verbatim>\<open>int\<close>, stored in the integer member.
\<close>

definition createTypeNode :: "ConstantType \<Rightarrow> TypeNode" where
  "createTypeNode t = \<lparr>tn_type = t\<rparr>"

definition createBooleanConstantNode :: "32 word \<Rightarrow> ConstantNode" where
  "createBooleanConstantNode b = \<lparr>cn_type = CT_BOOLEAN, cn_data = ConstantData_i (scast b)\<rparr>"

definition createIntegerConstantNode :: "64 word \<Rightarrow> ConstantNode" where
  "createIntegerConstantNode i = \<lparr>cn_type = CT_INTEGER, cn_data = ConstantData_i i\<rparr>"

definition createFloatConstantNode :: "32 word \<Rightarrow> ConstantNode" where
  "createFloatConstantNode f = \<lparr>cn_type = CT_FLOAT, cn_data = ConstantData_f f\<rparr>"

definition createStringConstantNode :: "string \<Rightarrow> ConstantNode" where
  "createStringConstantNode s = \<lparr>cn_type = CT_STRING, cn_data = ConstantData_s s\<rparr>"

text \<open>
  A call of the declared constant-construction interface, and the node it returns.
\<close>

datatype ConstantCall =
    Call_createBooleanConstantNode "32 word"
  | Call_createIntegerConstantNode "64 word"
  | Call_createFloatConstantNode "32 word"
  | Call_createStringConstantNode string

fun constant_call :: "ConstantCall \<Rightarrow> ConstantNode" where
  "constant_call (Call_createBooleanConstantNode b) = createBooleanConstantNode b"
| "constant_call (Call_createIntegerConstantNode i) = createIntegerConstantNode i"
| "constant_call (Call_createFloatConstantNode f) = createFloatConstantNode f"
| "constant_call (Call_createStringConstantNode s) = createStringConstantNode s"

section \<open>The grammar of the parser (parser.h)\<close>

text \<open>
  The header declares one parsing function per node (\<open>parseConstantNode\<close>, ...,
  \<open>parseAltArrayDefStmtNode\<close>), each taking the token cursor, and documents what they
  parse as an EBNF; their bodies are in parser.c, which is not among the sources, so the
  grammar is what the header says of them.  Every production of that EBNF is a relation between the cursor before,
  the node built, and the cursor after: \<open>parseExprNode ts e rest\<close> says that from the
  tokens \<open>ts\<close> the production \<open>ExprNode\<close> derives the node \<open>e\<close> and leaves \<open>rest\<close>.
  Productions with a declared parsing function carry its name, the others the name of the
  nonterminal; \<open>X_star\<close> and \<open>X_plus\<close> are the repetitions \<open>X *\<close> and \<open>X +\<close>, an
  optional part \<open>X ?\<close> is a pair of rules.  The nodes are built as their structures'
  field comments say.
\<close>

inductive terminal :: "TokenType \<Rightarrow> Token list \<Rightarrow> Token list \<Rightarrow> bool" where
  terminalI: "tok_type t = k \<Longrightarrow> terminal k (t # rest) rest"

subsection \<open>Types\<close>


text \<open>
  \<^verbatim>\<open>TypeNode ::= TT_NOOB | TT_TROOF | TT_NUMBR | TT_NUMBAR | TT_YARN\<close>, each keyword
  recorded as the constant kind of its type.
\<close>

inductive parseTypeNode :: "Token list \<Rightarrow> TypeNode \<Rightarrow> Token list \<Rightarrow> bool" where
  NOOB: "terminal TT_NOOB ts rest \<Longrightarrow> parseTypeNode ts (createTypeNode CT_NIL) rest"
| TROOF: "terminal TT_TROOF ts rest \<Longrightarrow> parseTypeNode ts (createTypeNode CT_BOOLEAN) rest"
| NUMBR: "terminal TT_NUMBR ts rest \<Longrightarrow> parseTypeNode ts (createTypeNode CT_INTEGER) rest"
| NUMBAR: "terminal TT_NUMBAR ts rest \<Longrightarrow> parseTypeNode ts (createTypeNode CT_FLOAT) rest"
| YARN: "terminal TT_YARN ts rest \<Longrightarrow> parseTypeNode ts (createTypeNode CT_STRING) rest"

subsection \<open>Expressions\<close>





subsection \<open>Statements without a block\<close>












subsection \<open>Loop headers\<close>










definition consumed :: "Token list \<Rightarrow> Token list \<Rightarrow> Token list" where
  "consumed ts rest = take (length ts - length rest) ts"


subsection \<open>Blocks and the statements that hold blocks\<close>


subsection \<open>The program\<close>


subsection \<open>Running the grammar\<close>

text \<open>
  With the cursor as input and the node and the rest as outputs the productions can be
  run: from a token list they enumerate the nodes they derive.
\<close>

code_pred (modes: i \<Rightarrow> i \<Rightarrow> o \<Rightarrow> bool) terminal .



section \<open>Notions for the properties\<close>

subsection \<open>Tags, tokens read and first tokens\<close>

text \<open>
  The five tags that the type keywords stand for.
\<close>

definition type_keyword_tags :: "ConstantType set" where
  "type_keyword_tags = {CT_NIL, CT_BOOLEAN, CT_INTEGER, CT_FLOAT, CT_STRING}"



definition starts :: "TokenType set \<Rightarrow> Token list \<Rightarrow> bool" where
  "starts K ts = (case ts of [] \<Rightarrow> False | t # _ \<Rightarrow> tok_type t \<in> K)"








subsection \<open>The statements of a tree\<close>





subsection \<open>Example programs\<close>

text \<open>
  Tokens of the file \<open>main.lol\<close>: a keyword or structural token, an identifier, and the
  literals, each with its line; the node of a \<open>VISIBLE\<close> of one string, and the
  expression of a plain identifier.
\<close>

definition kw :: "TokenType \<Rightarrow> nat \<Rightarrow> Token" where
  "kw k l = \<lparr>tok_type = k, tok_data = TD_none, tok_fname = ''main.lol'', tok_line = l\<rparr>"






















section \<open>The order of the keyword table\<close>

lemma keywords_length: "length keywords = 73"
  by (simp add: keywords_def)

lemma keywords_prefix_pairs:
  "prefix_pairs keywords =
     [((5, ''IT''), (6, ''ITZ LIEK A'')), ((5, ''IT''), (18, ''ITZ A'')),
      ((5, ''IT''), (19, ''ITZ'')), ((19, ''ITZ''), (6, ''ITZ LIEK A'')),
      ((19, ''ITZ''), (18, ''ITZ A'')), ((21, ''R''), (20, ''R NOOB'')),
      ((23, ''AN''), (22, ''AN YR'')), ((23, ''AN''), (37, ''ANY OF'')),
      ((41, ''A''), (22, ''AN YR'')), ((41, ''A''), (23, ''AN'')),
      ((41, ''A''), (36, ''ALL OF'')), ((41, ''A''), (37, ''ANY OF'')),
      ((53, ''OMG''), (54, ''OMGWTF'')), ((71, ''KTHX''), (16, ''KTHXBYE''))]"
  by code_simp

lemma keywords_word_prefix_pairs:
  "word_prefix_pairs keywords =
     [((19, ''ITZ''), (6, ''ITZ LIEK A'')), ((19, ''ITZ''), (18, ''ITZ A'')),
      ((21, ''R''), (20, ''R NOOB'')), ((23, ''AN''), (22, ''AN YR''))]"
  by code_simp

lemma word_prefix_pairs_set:
  "set (word_prefix_pairs ks) =
     {((i, ks ! i), (j, ks ! j)) | i j. i < length ks \<and> j < length ks \<and> ks ! i \<noteq> []
        \<and> strict_prefix (words_of (ks ! i)) (words_of (ks ! j))}"
  by (auto simp: word_prefix_pairs_def in_set_enumerate_eq)

lemma word_longest_first_iff:
  "word_longest_first ks = list_all (\<lambda>p. fst (snd p) < fst (fst p)) (word_prefix_pairs ks)"
  unfolding list_all_iff word_prefix_pairs_set word_longest_first_def by auto

lemma keywords_word_longest_first: "word_longest_first keywords"
  unfolding word_longest_first_iff keywords_word_prefix_pairs by simp

lemma first_word_match_Some:
  "first_word_match ks ws = Some i \<Longrightarrow>
     i < length ks \<and> ks ! i \<noteq> [] \<and> prefix (words_of (ks ! i)) ws
     \<and> (\<forall>j < i. \<not> (ks ! j \<noteq> [] \<and> prefix (words_of (ks ! j)) ws))"
proof (induction ks arbitrary: i)
  case Nil
  then show ?case by simp
next
  case (Cons k ks)
  show ?case
  proof (cases "k \<noteq> [] \<and> prefix (words_of k) ws")
    case True
    with Cons.prems show ?thesis by auto
  next
    case False
    with Cons.prems obtain i' where i': "first_word_match ks ws = Some i'" "i = Suc i'"
      by auto
    from Cons.IH [OF i'(1)] False i'(2) show ?thesis
      by (auto simp: less_Suc_eq_0_disj)
  qed
qed

lemma first_match_longest:
  assumes lf: "word_longest_first ks"
    and m: "first_word_match ks ws = Some i"
    and j: "j < length ks" "ks ! j \<noteq> []" "prefix (words_of (ks ! j)) ws"
  shows "length (words_of (ks ! j)) \<le> length (words_of (ks ! i))"
proof (rule ccontr)
  assume "\<not> length (words_of (ks ! j)) \<le> length (words_of (ks ! i))"
  then have len: "length (words_of (ks ! i)) < length (words_of (ks ! j))"
    by simp
  from first_word_match_Some [OF m] have
    i: "i < length ks" "ks ! i \<noteq> []" "prefix (words_of (ks ! i)) ws"
    and first: "\<forall>j < i. \<not> (ks ! j \<noteq> [] \<and> prefix (words_of (ks ! j)) ws)"
    by blast+
  from i(3) j(3) have "prefix (words_of (ks ! i)) (words_of (ks ! j))
      \<or> prefix (words_of (ks ! j)) (words_of (ks ! i))"
    by (rule prefix_same_cases)
  with len have "strict_prefix (words_of (ks ! i)) (words_of (ks ! j))"
    by (auto simp: strict_prefix_def dest: prefix_length_le)
  with lf i(1,2) j(1) have "j < i"
    unfolding word_longest_first_def by blast
  with first j(2,3) show False by blast
qed

text \<open>
  C3, as stated, fails: \<open>IT\<close> (index 5) is a proper prefix of \<open>ITZ LIEK A\<close> (index 6)
  and stands before it.
\<close>

theorem C3_longest_first_counterexample: "\<not> longest_first keywords"
proof
  assume h: "longest_first keywords"
  have "(5::nat) < length keywords" and "(6::nat) < length keywords"
    by (simp_all add: keywords_length)
  with h have "strict_prefix (keywords ! 5) (keywords ! 6) \<longrightarrow> (6::nat) < 5"
    unfolding longest_first_def by blast
  then show False
    by (simp add: keywords_def strict_prefix_def)
qed

text \<open>
  C3, amended: the keyword table is ordered longest-first on whole words.  For every pair
  of entries where the words of one spelling are a proper prefix of the words of the other
  (\<open>ITZ\<close> with \<open>ITZ LIEK A\<close> and \<open>ITZ A\<close>, \<open>R\<close> with \<open>R NOOB\<close>, \<open>AN\<close> with \<open>AN YR\<close>), the
  longer spelling appears at an earlier index, so that first-match tokenization over the
  table, comparing whole words, emits the longest matching compound keyword.  As strings
  of characters five pairs stand the other way round (\<open>IT\<close> before \<open>ITZ LIEK A\<close>,
  \<open>ITZ A\<close> and \<open>ITZ\<close>, \<open>AN\<close> before \<open>ANY OF\<close>, \<open>OMG\<close> before \<open>OMGWTF\<close>), and first match
  on characters finds \<open>OMG\<close> (index 53) on the input \<open>OMGWTF\<close>.
\<close>

theorem C3_keyword_order:
  "word_longest_first keywords
   \<and> (first_word_match keywords ws = Some i \<longrightarrow>
        (\<forall>j < length keywords.
           keywords ! j \<noteq> [] \<and> prefix (words_of (keywords ! j)) ws \<longrightarrow>
           length (words_of (keywords ! j)) \<le> length (words_of (keywords ! i))))
   \<and> word_prefix_pairs keywords =
       [((19, ''ITZ''), (6, ''ITZ LIEK A'')), ((19, ''ITZ''), (18, ''ITZ A'')),
        ((21, ''R''), (20, ''R NOOB'')), ((23, ''AN''), (22, ''AN YR''))]
   \<and> [p \<leftarrow> prefix_pairs keywords. fst (fst p) < fst (snd p)] =
       [((5, ''IT''), (6, ''ITZ LIEK A'')), ((5, ''IT''), (18, ''ITZ A'')),
        ((5, ''IT''), (19, ''ITZ'')), ((23, ''AN''), (37, ''ANY OF'')),
        ((53, ''OMG''), (54, ''OMGWTF''))]
   \<and> first_match keywords ''OMGWTF'' = Some 53"
proof -
  have "first_match keywords ''OMGWTF'' = Some 53"
    by code_simp
  moreover have "[p \<leftarrow> prefix_pairs keywords. fst (fst p) < fst (snd p)] =
       [((5, ''IT''), (6, ''ITZ LIEK A'')), ((5, ''IT''), (18, ''ITZ A'')),
        ((5, ''IT''), (19, ''ITZ'')), ((23, ''AN''), (37, ''ANY OF'')),
        ((53, ''OMG''), (54, ''OMGWTF''))]"
    unfolding keywords_prefix_pairs by simp
  moreover have "length (words_of (keywords ! j)) \<le> length (words_of (keywords ! i))"
    if "first_word_match keywords ws = Some i" "j < length keywords" "keywords ! j \<noteq> []"
      "prefix (words_of (keywords ! j)) ws" for j
    using keywords_word_longest_first that by (rule first_match_longest)
  ultimately show ?thesis
    using keywords_word_longest_first keywords_word_prefix_pairs by blast
qed

theorem C3_keyword_order_witness:
  "first_word_match keywords [''R'', ''NOOB'', ''X''] = Some 20
   \<and> keywords ! 20 = ''R NOOB'' \<and> keywords ! 21 = ''R''
   \<and> prefix (words_of (keywords ! 21)) [''R'', ''NOOB'', ''X'']
   \<and> strict_prefix (words_of (keywords ! 21)) (words_of (keywords ! 20))
   \<and> length (words_of (keywords ! 21)) \<le> length (words_of (keywords ! 20))"
proof -
  have m: "first_word_match keywords [''R'', ''NOOB'', ''X''] = Some 20"
    by code_simp
  have k: "keywords ! 20 = ''R NOOB''" "keywords ! 21 = ''R''"
    by (simp_all add: keywords_def)
  have w: "words_of ''R NOOB'' = [''R'', ''NOOB'']" "words_of ''R'' = [''R'']"
    by (simp_all add: words_of_def)
  have p: "prefix (words_of (keywords ! 21)) [''R'', ''NOOB'', ''X'']"
    unfolding k w by simp
  have "(21::nat) < length keywords" "keywords ! 21 \<noteq> []"
    by (simp_all add: keywords_length k)
  with C3_keyword_order [of "[''R'', ''NOOB'', ''X'']" 20] m p
  have "length (words_of (keywords ! 21)) \<le> length (words_of (keywords ! 20))"
    by blast
  moreover have "strict_prefix (words_of (keywords ! 21)) (words_of (keywords ! 20))"
    unfolding k w by (simp add: strict_prefix_def)
  ultimately show ?thesis
    using m k p by blast
qed

section \<open>The operator discriminant\<close>

lemma OpType_UNIV: "(UNIV :: OpType set) = set op_types"
proof -
  have "x \<in> set op_types" for x
    by (cases x) (simp_all add: op_types_def)
  then show ?thesis by blast
qed

lemma ExprType_UNIV: "(UNIV :: ExprType set) = set expr_types"
proof -
  have "x \<in> set expr_types" for x
    by (cases x) (simp_all add: expr_types_def)
  then show ?thesis by blast
qed

lemma OpType_card: "card (UNIV :: OpType set) = 14"
proof -
  have "distinct op_types"
    by (simp add: op_types_def)
  then have "card (set op_types) = length op_types"
    by (rule distinct_card)
  then show ?thesis
    by (simp add: OpType_UNIV op_types_def)
qed

text \<open>
  C4, as stated, fails: the specification lists sixteen pairwise different operator
  variants, \<open>OpType\<close> has fourteen values, so no assignment of an \<open>OpType\<close> to each listed
  variant keeps them apart.
\<close>

theorem C4_sixteen_variants_counterexample:
  "\<not> (\<exists>f :: SpecOpVariant \<Rightarrow> OpType. inj_on f (set spec_op_variants))"
proof
  assume "\<exists>f :: SpecOpVariant \<Rightarrow> OpType. inj_on f (set spec_op_variants)"
  then obtain f :: "SpecOpVariant \<Rightarrow> OpType" where inj: "inj_on f (set spec_op_variants)"
    by blast
  have "distinct spec_op_variants"
    by (simp add: spec_op_variants_def)
  then have "card (set spec_op_variants) = 16"
    by (simp add: distinct_card spec_op_variants_def)
  moreover have "card (f ` set spec_op_variants) \<le> card (UNIV :: OpType set)"
  proof -
    have "f ` set spec_op_variants \<subseteq> set op_types"
      using OpType_UNIV by blast
    then have "card (f ` set spec_op_variants) \<le> card (set op_types)"
      by (intro card_mono) simp_all
    then show ?thesis
      by (simp add: OpType_UNIV)
  qed
  moreover have "card (f ` set spec_op_variants) = card (set spec_op_variants)"
    using inj by (rule card_image)
  ultimately show False
    by (simp add: OpType_card)
qed

text \<open>
  C4, amended: the operator discriminant comprises exactly the fourteen variants add, sub,
  mult, div, mod, max, min, and, or, xor, not, eq, neq and concat, pairwise different;
  it has no all-of and no any-of variant; cast is not an operator variant but the
  expression variant \<open>ET_CAST\<close>, which stands beside \<open>ET_OP\<close> in the expression
  discriminant.
\<close>

theorem C4_operator_variants:
  "(UNIV :: OpType set) =
     {OP_ADD, OP_SUB, OP_MULT, OP_DIV, OP_MOD, OP_MAX, OP_MIN,
      OP_AND, OP_OR, OP_XOR, OP_NOT, OP_EQ, OP_NEQ, OP_CAT}
   \<and> distinct op_types \<and> length op_types = 14
   \<and> (UNIV :: ExprType set) =
     {ET_CAST, ET_CONSTANT, ET_IDENTIFIER, ET_FUNCCALL, ET_OP, ET_IMPVAR}
   \<and> ET_CAST \<noteq> ET_OP"
proof -
  have "(UNIV :: OpType set) = set op_types"
    by (rule OpType_UNIV)
  moreover have "(UNIV :: ExprType set) = set expr_types"
    by (rule ExprType_UNIV)
  ultimately show ?thesis
    by (simp add: op_types_def expr_types_def)
qed

section \<open>What the productions read\<close>















lemma starts_Cons [simp]: "starts K (t # ts) = (tok_type t \<in> K)"
  by (simp add: starts_def)

lemma starts_Nil [simp]: "starts K [] = False"
  by (simp add: starts_def)


lemma terminal_Cons [simp]: "terminal k (t # ts) rest = (tok_type t = k \<and> rest = ts)"
  by (auto elim: terminal.cases intro: terminalI)

lemma terminal_Nil [simp]: "terminal k [] rest = False"
  by (auto elim: terminal.cases)

lemma terminal_starts: "terminal k ts rest \<Longrightarrow> k \<in> K \<Longrightarrow> starts K ts"
  by (cases ts) simp_all














section \<open>Constants and type tags\<close>

text \<open>
  C10: every constant node that a call of the declared constant-construction interface
  returns has kind boolean, integer, float or string, and never kind nil or array, although
  both are values of the constant discriminant.
\<close>

theorem C10_constructed_kinds:
  "cn_type (constant_call c) \<in> {CT_BOOLEAN, CT_INTEGER, CT_FLOAT, CT_STRING}
   \<and> cn_type (constant_call c) \<noteq> CT_NIL \<and> cn_type (constant_call c) \<noteq> CT_ARRAY
   \<and> cn_type (createBooleanConstantNode b) = CT_BOOLEAN
   \<and> cn_type (createIntegerConstantNode i) = CT_INTEGER
   \<and> cn_type (createFloatConstantNode f) = CT_FLOAT
   \<and> cn_type (createStringConstantNode s) = CT_STRING
   \<and> {CT_NIL, CT_ARRAY} \<subseteq> (UNIV :: ConstantType set)"
  by (cases c)
     (simp_all add: createBooleanConstantNode_def createIntegerConstantNode_def
        createFloatConstantNode_def createStringConstantNode_def)

lemma ConstantType_UNIV:
  "(UNIV :: ConstantType set) = {CT_INTEGER, CT_FLOAT, CT_BOOLEAN, CT_STRING, CT_NIL, CT_ARRAY}"
proof -
  have "x \<in> {CT_INTEGER, CT_FLOAT, CT_BOOLEAN, CT_STRING, CT_NIL, CT_ARRAY}" for x
    by (cases x) simp_all
  then show ?thesis by blast
qed

text \<open>
  C1, as stated, fails: the tag of a type node is a \<open>ConstantType\<close>, and a type node whose
  tag is \<open>CT_ARRAY\<close> records none of the five tags of the type keywords.
\<close>

theorem C1_array_tag_counterexample:
  "\<not> (\<forall>n :: TypeNode. tn_type n \<in> type_keyword_tags)"
proof
  assume "\<forall>n :: TypeNode. tn_type n \<in> type_keyword_tags"
  then have "tn_type \<lparr>tn_type = CT_ARRAY\<rparr> \<in> type_keyword_tags"
    by (rule spec)
  then show False
    by (simp add: type_keyword_tags_def)
qed

text \<open>
  C1, amended: the type-tag parser accepts exactly one token, of one of the five type
  keywords NOOB, TROOF, NUMBR, NUMBAR and YARN, and records the tag nil, boolean, integer,
  float or string of that keyword, so the tag of a parsed type node is one of these five.
  The tag field itself is a \<open>ConstantType\<close>: it ranges over six values, the five and
  \<open>CT_ARRAY\<close>, and \<open>createTypeNode\<close> records whichever it is given.
\<close>

theorem C1_type_tags:
  "parseTypeNode ts n rest =
     (\<exists>t. ts = t # rest \<and>
        (tok_type t = TT_NOOB \<and> n = createTypeNode CT_NIL
         \<or> tok_type t = TT_TROOF \<and> n = createTypeNode CT_BOOLEAN
         \<or> tok_type t = TT_NUMBR \<and> n = createTypeNode CT_INTEGER
         \<or> tok_type t = TT_NUMBAR \<and> n = createTypeNode CT_FLOAT
         \<or> tok_type t = TT_YARN \<and> n = createTypeNode CT_STRING))
   \<and> (parseTypeNode ts n rest \<longrightarrow> tn_type n \<in> type_keyword_tags)
   \<and> (UNIV :: ConstantType set) = type_keyword_tags \<union> {CT_ARRAY}
   \<and> CT_ARRAY \<notin> type_keyword_tags
   \<and> tn_type (createTypeNode c) = c"
proof -
  have iff: "parseTypeNode ts n rest =
     (\<exists>t. ts = t # rest \<and>
        (tok_type t = TT_NOOB \<and> n = createTypeNode CT_NIL
         \<or> tok_type t = TT_TROOF \<and> n = createTypeNode CT_BOOLEAN
         \<or> tok_type t = TT_NUMBR \<and> n = createTypeNode CT_INTEGER
         \<or> tok_type t = TT_NUMBAR \<and> n = createTypeNode CT_FLOAT
         \<or> tok_type t = TT_YARN \<and> n = createTypeNode CT_STRING))"
    by (cases ts) (auto simp: parseTypeNode.simps)
  have "tn_type n \<in> type_keyword_tags" if "parseTypeNode ts n rest"
    using that unfolding iff by (auto simp: type_keyword_tags_def createTypeNode_def)
  moreover have "(UNIV :: ConstantType set) = type_keyword_tags \<union> {CT_ARRAY}"
    unfolding ConstantType_UNIV type_keyword_tags_def by auto
  ultimately show ?thesis
    using iff by (simp add: type_keyword_tags_def createTypeNode_def)
qed

theorem C1_type_tags_witness:
  "parseTypeNode [kw TT_YARN 1] (createTypeNode CT_STRING) []
   \<and> tn_type (createTypeNode CT_STRING) \<in> type_keyword_tags"
proof -
  have "parseTypeNode [kw TT_YARN 1] (createTypeNode CT_STRING) []"
    by (rule YARN) (simp add: kw_def)
  then show ?thesis
    using C1_type_tags [of "[kw TT_YARN 1]" "createTypeNode CT_STRING" "[]"] by blast
qed

section \<open>N-ary operators\<close>











section \<open>Statements of a parsed program\<close>



















section \<open>If/then/else and switch\<close>









section \<open>Loops and deallocation\<close>

lemma consumed_append [simp]: "consumed (pre @ rest) rest = pre"
  by (simp add: consumed_def)

lemma consumed_Cons [simp]: "consumed (t # rest) rest = [t]"
  using consumed_append [of "[t]" rest] by simp














end
